theory Spec2Isabelle
  imports Complex_Main "HOL-Library.Multiset"
begin

section \<open>Python numbers and errors\<close>

text \<open>
  Python floats are modelled as exact reals. An exception is a value of \<open>py_error\<close>;
  a function that can raise returns \<open>py_error + 'a\<close> with \<open>Inl\<close> the exception.
\<close>

datatype py_error = ZeroDivisionError | KeyError | TypeError

text \<open>Python's true division \<^verbatim>\<open>a / b\<close> on plain numbers raises on a zero divisor.\<close>

definition py_div :: "real \<Rightarrow> real \<Rightarrow> py_error + real" where
  "py_div a b = (if b = 0 then Inl ZeroDivisionError else Inr (a / b))"

text \<open>Python's \<^verbatim>\<open>round(x, nd)\<close>: to the nearest multiple of \<open>10^-nd\<close>, ties to even.\<close>

definition round_half_even :: "real \<Rightarrow> int" where
  "round_half_even x =
     (let f = \<lfloor>x\<rfloor>; d = x - of_int f in
      if d < 1/2 then f else if d > 1/2 then f + 1 else if even f then f else f + 1)"

definition py_round :: "nat \<Rightarrow> real \<Rightarrow> real" where
  "py_round nd x = of_int (round_half_even (x * 10 ^ nd)) / 10 ^ nd"

text \<open>Running a fallible function over a list stops at the first exception.\<close>

fun map_res :: "('a \<Rightarrow> py_error + 'b) \<Rightarrow> 'a list \<Rightarrow> py_error + 'b list" where
  "map_res f [] = Inr []"
| "map_res f (x # xs) =
     (case f x of
        Inl e \<Rightarrow> Inl e
      | Inr y \<Rightarrow> (case map_res f xs of Inl e \<Rightarrow> Inl e | Inr ys \<Rightarrow> Inr (y # ys)))"

section \<open>Strings\<close>

text \<open>\<^verbatim>\<open>str.lower()\<close> and \<^verbatim>\<open>str.strip()\<close> on ASCII text, and \<^verbatim>\<open>kw in s\<close>.\<close>

definition lower_char :: "char \<Rightarrow> char" where
  "lower_char c =
     (let n = of_char c :: nat in if 65 \<le> n \<and> n \<le> 90 then char_of (n + 32) else c)"

definition py_lower :: "string \<Rightarrow> string" where
  "py_lower s = map lower_char s"

definition is_space :: "char \<Rightarrow> bool" where
  "is_space c = (let n = of_char c :: nat in n = 32 \<or> (9 \<le> n \<and> n \<le> 13) \<or> (28 \<le> n \<and> n \<le> 31))"

definition py_strip :: "string \<Rightarrow> string" where
  "py_strip s = rev (dropWhile is_space (rev (dropWhile is_space s)))"

definition is_digit :: "char \<Rightarrow> bool" where
  "is_digit c = (let n = of_char c :: nat in 48 \<le> n \<and> n \<le> 57)"

fun starts_with :: "string \<Rightarrow> string \<Rightarrow> bool" where
  "starts_with [] s = True"
| "starts_with (k # ks) [] = False"
| "starts_with (k # ks) (c # cs) = (k = c \<and> starts_with ks cs)"

fun contains :: "string \<Rightarrow> string \<Rightarrow> bool" where
  "contains kw [] = (kw = [])"
| "contains kw (c # cs) = (starts_with kw (c # cs) \<or> contains kw cs)"

text \<open>\<^verbatim>\<open>any(kw in col.lower() for kw in kws)\<close>\<close>

definition any_keyword :: "string list \<Rightarrow> string \<Rightarrow> bool" where
  "any_keyword kws col = list_ex (\<lambda>kw. contains kw (py_lower col)) kws"

section \<open>The dataset\<close>

text \<open>
  A pandas DataFrame: a number of rows (the index) and named, typed columns of cells.
  \<open>NA\<close> is a missing cell (None, NaN or NaT). Timestamps count seconds.
\<close>

datatype dtype = Int64 | Float64 | Float32 | Object | Category | Datetime64 | Bool

datatype cell = NA | Num real | PosInf | NegInf | Str string | Stamp int | Flag bool

record column =
  col_name :: string
  col_dtype :: dtype
  col_cells :: "cell list"

record dataframe =
  n_rows :: nat
  df_columns :: "column list"


definition is_number :: "dtype \<Rightarrow> bool" where
  "is_number d = (d = Int64 \<or> d = Float64 \<or> d = Float32)"

definition df_size :: "dataframe \<Rightarrow> nat" where
  "df_size df = n_rows df * length (df_columns df)"

definition df_empty :: "dataframe \<Rightarrow> bool" where
  "df_empty df = (n_rows df = 0 \<or> df_columns df = [])"

definition column_names :: "dataframe \<Rightarrow> string list" where
  "column_names df = map col_name (df_columns df)"

text \<open>\<^verbatim>\<open>df[name]\<close>: the column of that name, KeyError when there is none.\<close>

definition get_column :: "dataframe \<Rightarrow> string \<Rightarrow> py_error + column" where
  "get_column df name =
     (case find (\<lambda>c. col_name c = name) (df_columns df) of
        None \<Rightarrow> Inl KeyError
      | Some c \<Rightarrow> Inr c)"

definition dropna :: "cell list \<Rightarrow> cell list" where
  "dropna cs = filter (\<lambda>v. v \<noteq> NA) cs"

definition notna_sum :: "cell list \<Rightarrow> nat" where
  "notna_sum cs = length (dropna cs)"

definition isna_sum :: "cell list \<Rightarrow> nat" where
  "isna_sum cs = length (filter (\<lambda>v. v = NA) cs)"

text \<open>\<^verbatim>\<open>Series.unique()\<close> in order of first appearance; \<^verbatim>\<open>nunique()\<close> leaves NA out.\<close>

fun py_unique :: "'a list \<Rightarrow> 'a list \<Rightarrow> 'a list" where
  "py_unique seen [] = []"
| "py_unique seen (v # vs) =
     (if v \<in> set seen then py_unique seen vs else v # py_unique (v # seen) vs)"

definition nunique :: "cell list \<Rightarrow> nat" where
  "nunique cs = length (py_unique [] (dropna cs))"

text \<open>\<^verbatim>\<open>select_dtypes\<close>, as the analyzer's constructor calls it.\<close>

definition numeric_cols :: "dataframe \<Rightarrow> string list" where
  "numeric_cols df = map col_name (filter (\<lambda>c. is_number (col_dtype c)) (df_columns df))"

definition categorical_cols :: "dataframe \<Rightarrow> string list" where
  "categorical_cols df =
     map col_name (filter (\<lambda>c. col_dtype c = Object \<or> col_dtype c = Category) (df_columns df))"

definition datetime_cols :: "dataframe \<Rightarrow> string list" where
  "datetime_cols df = map col_name (filter (\<lambda>c. col_dtype c = Datetime64) (df_columns df))"

definition boolean_cols :: "dataframe \<Rightarrow> string list" where
  "boolean_cols df = map col_name (filter (\<lambda>c. col_dtype c = Bool) (df_columns df))"

text \<open>
  \<^verbatim>\<open>df.duplicated()\<close> marks each row that equals an earlier row (NA equals NA there);
  pandas returns an empty result for a frame with no rows or no columns.
\<close>

definition rows_of :: "dataframe \<Rightarrow> cell list list" where
  "rows_of df = map (\<lambda>i. map (\<lambda>c. col_cells c ! i) (df_columns df)) [0..<n_rows df]"

fun duplicated_from :: "'a list \<Rightarrow> 'a list \<Rightarrow> bool list" where
  "duplicated_from seen [] = []"
| "duplicated_from seen (r # rs) = (r \<in> set seen) # duplicated_from (r # seen) rs"

definition duplicated :: "dataframe \<Rightarrow> bool list" where
  "duplicated df = (if df_empty df then [] else duplicated_from [] (rows_of df))"

definition count_true :: "bool list \<Rightarrow> nat" where
  "count_true bs = length (filter (\<lambda>b. b) bs)"

section \<open>Completeness\<close>

record column_completeness =
  cc_column :: string
  cc_non_null_count :: nat
  cc_null_count :: int
  cc_completeness_ratio :: real
  cc_status :: string

record completeness_result =
  comp_score :: real
  comp_total_cells :: nat
  comp_non_null_cells :: nat
  comp_null_cells :: int
  comp_columns_below_threshold :: nat
  comp_column_details :: "column_completeness list"
  comp_threshold :: int
  comp_status :: string

text \<open>The body of the per-column loop of \<^verbatim>\<open>measure_completeness\<close>.\<close>

definition completeness_entry :: "dataframe \<Rightarrow> column \<Rightarrow> py_error + column_completeness" where
  "completeness_entry df c =
     (let non_null = notna_sum (col_cells c);
          total = n_rows df
      in case (if total > 0 then py_div (real non_null) (real total) else Inr 0) of
           Inl e \<Rightarrow> Inl e
         | Inr ratio \<Rightarrow>
             Inr \<lparr>cc_column = col_name c,
                  cc_non_null_count = non_null,
                  cc_null_count = int total - int non_null,
                  cc_completeness_ratio = py_round 2 (ratio * 100),
                  cc_status = (if ratio \<ge> 0.95 then ''pass''
                               else if ratio \<ge> 0.8 then ''warning'' else ''fail'')\<rparr>)"

definition measure_completeness :: "dataframe \<Rightarrow> py_error + completeness_result" where
  "measure_completeness df =
     (let total_cells = df_size df;
          non_null_cells = sum_list (map (\<lambda>c. notna_sum (col_cells c)) (df_columns df))
      in case (if total_cells > 0 then py_div (real non_null_cells) (real total_cells) else Inr 0) of
           Inl e \<Rightarrow> Inl e
         | Inr completeness_ratio \<Rightarrow>
            (case map_res (completeness_entry df) (df_columns df) of
               Inl e \<Rightarrow> Inl e
             | Inr entries \<Rightarrow>
                (let column_completeness = sort_key cc_completeness_ratio entries
                 in Inr \<lparr>comp_score = py_round 2 (completeness_ratio * 100),
                         comp_total_cells = total_cells,
                         comp_non_null_cells = non_null_cells,
                         comp_null_cells = int total_cells - int non_null_cells,
                         comp_columns_below_threshold =
                           length (filter (\<lambda>c. cc_status c = ''fail'') column_completeness),
                         comp_column_details = column_completeness,
                         comp_threshold = 95,
                         comp_status = (if completeness_ratio \<ge> 0.95 then ''pass''
                                        else if completeness_ratio \<ge> 0.8 then ''warning''
                                        else ''fail'')\<rparr>)))"

section \<open>Uniqueness\<close>

record column_uniqueness =
  cu_column :: string
  cu_unique_values :: nat
  cu_cardinality_ratio :: real
  cu_is_potential_key :: bool

record uniqueness_result =
  uniq_score :: real
  uniq_total_rows :: nat
  uniq_unique_rows :: int
  uniq_duplicate_rows :: nat
  uniq_duplicate_percentage :: real
  uniq_column_cardinality :: "column_uniqueness list"
  uniq_potential_key_columns :: "string list"
  uniq_threshold :: int
  uniq_status :: string

definition uniqueness_entry :: "dataframe \<Rightarrow> column \<Rightarrow> py_error + column_uniqueness" where
  "uniqueness_entry df c =
     (let unique_values = nunique (col_cells c);
          total_values = notna_sum (col_cells c)
      in case (if total_values > 0 then py_div (real unique_values) (real total_values)
               else Inr 0) of
           Inl e \<Rightarrow> Inl e
         | Inr cardinality_ratio \<Rightarrow>
             Inr \<lparr>cu_column = col_name c,
                  cu_unique_values = unique_values,
                  cu_cardinality_ratio = py_round 2 (cardinality_ratio * 100),
                  cu_is_potential_key =
                    (cardinality_ratio > 0.95 \<and> total_values = n_rows df)\<rparr>)"

definition measure_uniqueness :: "dataframe \<Rightarrow> py_error + uniqueness_result" where
  "measure_uniqueness df =
     (let total_rows = n_rows df;
          duplicate_rows = count_true (duplicated df);
          unique_rows = int total_rows - int duplicate_rows
      in case (if total_rows > 0 then py_div (real_of_int unique_rows) (real total_rows)
               else Inr 0) of
           Inl e \<Rightarrow> Inl e
         | Inr uniqueness_ratio \<Rightarrow>
            (case map_res (uniqueness_entry df) (df_columns df) of
               Inl e \<Rightarrow> Inl e
             | Inr column_uniqueness \<Rightarrow>
                (case (if total_rows > 0 then py_div (real duplicate_rows) (real total_rows)
                       else Inr 0) of
                   Inl e \<Rightarrow> Inl e
                 | Inr dup_ratio \<Rightarrow>
                     Inr \<lparr>uniq_score = py_round 2 (uniqueness_ratio * 100),
                          uniq_total_rows = total_rows,
                          uniq_unique_rows = unique_rows,
                          uniq_duplicate_rows = duplicate_rows,
                          uniq_duplicate_percentage =
                            (if total_rows > 0 then py_round 2 (dup_ratio * 100) else 0),
                          uniq_column_cardinality = column_uniqueness,
                          uniq_potential_key_columns =
                            map cu_column (filter cu_is_potential_key column_uniqueness),
                          uniq_threshold = 95,
                          uniq_status = (if uniqueness_ratio \<ge> 0.95 then ''pass''
                                         else if uniqueness_ratio \<ge> 0.9 then ''warning''
                                         else ''fail'')\<rparr>)))"


section \<open>Library functions taken as parameters\<close>

text \<open>
  The functions of pandas, numpy and re that the measurers call and whose numerics are
  not part of this repository: the email regular expression on one string, \<^verbatim>\<open>str(v)\<close>,
  \<^verbatim>\<open>pd.to_datetime(..., errors='coerce')\<close> (\<open>None\<close> when it raises, otherwise one
  parsed timestamp or NaT per cell), whether the strict \<^verbatim>\<open>pd.to_datetime\<close> raises,
  \<^verbatim>\<open>quantile\<close>, the Pearson correlation and the variance (\<open>None\<close> for NaN).
\<close>

record pandas_lib =
  lib_email_match :: "string \<Rightarrow> bool"
  lib_py_str :: "cell \<Rightarrow> string"
  lib_to_datetime :: "cell list \<Rightarrow> int option list option"
  lib_to_datetime_raises :: "cell list \<Rightarrow> bool"
  lib_quantile :: "cell list \<Rightarrow> real \<Rightarrow> real"
  lib_corr :: "cell list \<Rightarrow> cell list \<Rightarrow> real option"
  lib_var :: "cell list \<Rightarrow> real option"

text \<open>Comparisons of a numeric cell with a number; NaN never reaches them (dropna).\<close>

fun cell_lt :: "cell \<Rightarrow> real \<Rightarrow> bool" where
  "cell_lt (Num r) x = (r < x)"
| "cell_lt NegInf x = True"
| "cell_lt v x = False"

fun cell_gt :: "cell \<Rightarrow> real \<Rightarrow> bool" where
  "cell_gt (Num r) x = (r > x)"
| "cell_gt PosInf x = True"
| "cell_gt v x = False"

fun is_inf :: "cell \<Rightarrow> bool" where
  "is_inf PosInf = True"
| "is_inf NegInf = True"
| "is_inf v = False"

definition count_where :: "('a \<Rightarrow> bool) \<Rightarrow> 'a list \<Rightarrow> nat" where
  "count_where P xs = length (filter P xs)"

section \<open>Validity\<close>

text \<open>An issue message carries the violation count that the source formats into it.\<close>

datatype validity_message =
    InfiniteValues nat
  | NegativeValues nat
  | WhitespaceOnly nat
  | InvalidEmails nat
  | InvalidPhones nat

record validity_issue =
  vi_column :: string
  vi_dtype :: dtype
  vi_issues :: "validity_message list"
  vi_severity :: string

record validity_state =
  vs_issues :: "validity_issue list"
  vs_total_checks :: nat
  vs_passed_checks :: nat

record validity_result =
  val_score :: real
  val_total_checks :: nat
  val_passed_checks :: nat
  val_failed_checks :: int
  val_issues :: "validity_issue list"
  val_threshold :: int
  val_status :: string

definition positive_keywords :: "string list" where
  "positive_keywords = [''age'', ''price'', ''amount'', ''quantity'', ''count'', ''size'']"

text \<open>The branch \<^verbatim>\<open>if col in self.numeric_cols\<close>: issues, total_checks, passed_checks.\<close>

definition numeric_checks ::
  "column \<Rightarrow> cell list \<Rightarrow> nat \<Rightarrow> nat \<Rightarrow> validity_message list \<times> nat \<times> nat" where
  "numeric_checks c col_data total_checks0 passed_checks0 =
     (let total_checks1 = total_checks0 + 1;
          inf_count = (if col_dtype c = Float64 \<or> col_dtype c = Float32
                       then count_where is_inf col_data else 0);
          issues1 = (if inf_count > 0 then [InfiniteValues inf_count] else []);
          passed_checks1 = (if inf_count > 0 then passed_checks0 else passed_checks0 + 1);
          total_checks2 = total_checks1 + 1
      in if any_keyword positive_keywords (col_name c)
         then (let neg_count = count_where (\<lambda>v. cell_lt v 0) col_data
               in if neg_count > 0
                  then (issues1 @ [NegativeValues neg_count], total_checks2, passed_checks1)
                  else (issues1, total_checks2, passed_checks1 + 1))
         else (issues1, total_checks2, passed_checks1 + 1))"

fun whitespace_only :: "cell \<Rightarrow> bool" where
  "whitespace_only (Str s) = (py_strip s = [])"
| "whitespace_only v = False"

fun invalid_email :: "pandas_lib \<Rightarrow> cell \<Rightarrow> bool" where
  "invalid_email L (Str s) = (\<not> lib_email_match L s)"
| "invalid_email L v = True"

fun invalid_phone :: "cell \<Rightarrow> bool" where
  "invalid_phone (Str s) = (length (filter is_digit s) < 10)"
| "invalid_phone v = False"

text \<open>The branch \<^verbatim>\<open>elif col in self.categorical_cols\<close>.\<close>

definition categorical_checks ::
  "pandas_lib \<Rightarrow> column \<Rightarrow> cell list \<Rightarrow> nat \<Rightarrow> nat \<Rightarrow> validity_message list \<times> nat \<times> nat" where
  "categorical_checks L c col_data total_checks0 passed_checks0 =
     (let col_lower = py_lower (col_name c);
          total_checks1 = total_checks0 + 1;
          whitespace_count = count_where whitespace_only col_data;
          issues1 = (if whitespace_count > 0 then [WhitespaceOnly whitespace_count] else []);
          passed_checks1 = (if whitespace_count > 0 then passed_checks0 else passed_checks0 + 1);
          is_email = contains ''email'' col_lower;
          invalid_emails = count_where (invalid_email L) col_data;
          total_checks2 = (if is_email then total_checks1 + 1 else total_checks1);
          issues2 = (if is_email \<and> invalid_emails > 0
                     then issues1 @ [InvalidEmails invalid_emails] else issues1);
          passed_checks2 = (if is_email \<and> \<not> invalid_emails > 0
                            then passed_checks1 + 1 else passed_checks1);
          is_phone = (contains ''phone'' col_lower \<or> contains ''mobile'' col_lower);
          invalid_phones = count_where invalid_phone col_data;
          total_checks3 = (if is_phone then total_checks2 + 1 else total_checks2);
          issues3 = (if is_phone \<and> invalid_phones > 0
                     then issues2 @ [InvalidPhones invalid_phones] else issues2);
          passed_checks3 = (if is_phone \<and> \<not> invalid_phones > 0
                            then passed_checks2 + 1 else passed_checks2)
      in (issues3, total_checks3, passed_checks3))"

text \<open>One iteration of \<^verbatim>\<open>for col in self.df.columns\<close> in \<^verbatim>\<open>measure_validity\<close>.\<close>

definition validity_column ::
  "pandas_lib \<Rightarrow> dataframe \<Rightarrow> column \<Rightarrow> validity_state \<Rightarrow> validity_state" where
  "validity_column L df c st =
     (let col_data = dropna (col_cells c)
      in if length col_data = 0 then st
         else (case (if col_name c \<in> set (numeric_cols df)
                     then numeric_checks c col_data (vs_total_checks st) (vs_passed_checks st)
                     else if col_name c \<in> set (categorical_cols df)
                     then categorical_checks L c col_data (vs_total_checks st) (vs_passed_checks st)
                     else ([], vs_total_checks st, vs_passed_checks st)) of
                 (issues, total_checks, passed_checks) \<Rightarrow>
                   \<lparr>vs_issues =
                      (if issues \<noteq> []
                       then vs_issues st @
                            [\<lparr>vi_column = col_name c, vi_dtype = col_dtype c, vi_issues = issues,
                              vi_severity = (if length issues > 1 then ''high'' else ''medium'')\<rparr>]
                       else vs_issues st),
                    vs_total_checks = total_checks,
                    vs_passed_checks = passed_checks\<rparr>))"

definition validity_loop :: "pandas_lib \<Rightarrow> dataframe \<Rightarrow> validity_state" where
  "validity_loop L df =
     fold (validity_column L df) (df_columns df)
       \<lparr>vs_issues = [], vs_total_checks = 0, vs_passed_checks = 0\<rparr>"

definition measure_validity :: "pandas_lib \<Rightarrow> dataframe \<Rightarrow> py_error + validity_result" where
  "measure_validity L df =
     (let st = validity_loop L df;
          total_checks = vs_total_checks st;
          passed_checks = vs_passed_checks st
      in case (if total_checks > 0 then py_div (real passed_checks) (real total_checks)
               else Inr 1) of
           Inl e \<Rightarrow> Inl e
         | Inr ratio \<Rightarrow>
            (let validity_score = (if total_checks > 0 then ratio * 100 else 100)
             in Inr \<lparr>val_score = py_round 2 validity_score,
                     val_total_checks = total_checks,
                     val_passed_checks = passed_checks,
                     val_failed_checks = int total_checks - int passed_checks,
                     val_issues = vs_issues st,
                     val_threshold = 90,
                     val_status = (if validity_score \<ge> 90 then ''pass''
                                   else if validity_score \<ge> 75 then ''warning''
                                   else ''fail'')\<rparr>))"

section \<open>Consistency\<close>

record consistency_issue =
  ci_column :: string
  ci_issue :: string
  ci_impact :: int

record consistency_result =
  cons_score :: int
  cons_issues_found :: nat
  cons_issues :: "consistency_issue list"
  cons_threshold :: int
  cons_status :: string

definition is_categorical :: "column \<Rightarrow> bool" where
  "is_categorical c = (col_dtype c = Object \<or> col_dtype c = Category)"

definition is_numeric_col :: "column \<Rightarrow> bool" where
  "is_numeric_col c = is_number (col_dtype c)"

fun cell_str :: "pandas_lib \<Rightarrow> cell \<Rightarrow> string" where
  "cell_str L (Str s) = s"
| "cell_str L v = lib_py_str L v"

fun differs_from_strip :: "cell \<Rightarrow> bool" where
  "differs_from_strip (Str s) = (s \<noteq> py_strip s)"
| "differs_from_strip v = True"

text \<open>First loop over the categorical columns: letter case, then whitespace.\<close>

definition consistency_case_ws ::
  "pandas_lib \<Rightarrow> column \<Rightarrow> consistency_issue list \<times> int \<Rightarrow> consistency_issue list \<times> int" where
  "consistency_case_ws L c st =
     (let col_data = dropna (col_cells c)
      in if length col_data = 0 then st
         else
          (let unique_values = py_unique [] col_data;
               lower_values = remdups (map (\<lambda>v. py_lower (cell_str L v)) unique_values);
               st1 = (if length lower_values < length unique_values
                      then (fst st @ [\<lparr>ci_column = col_name c,
                                        ci_issue = ''Case inconsistency detected'',
                                        ci_impact = - 2\<rparr>], snd st - 2)
                      else st);
               has_whitespace = list_ex differs_from_strip col_data
           in if has_whitespace
              then (fst st1 @ [\<lparr>ci_column = col_name c,
                                 ci_issue = ''Whitespace inconsistency'',
                                 ci_impact = - 1\<rparr>], snd st1 - 1)
              else st1))"

definition date_keywords :: "string list" where
  "date_keywords = [''date'', ''time'', ''timestamp'', ''created'', ''updated'']"

text \<open>Second loop over the categorical columns: one date format.\<close>

definition consistency_date ::
  "pandas_lib \<Rightarrow> column \<Rightarrow> consistency_issue list \<times> int \<Rightarrow> consistency_issue list \<times> int" where
  "consistency_date L c st =
     (if any_keyword date_keywords (col_name c)
      then (let col_data = dropna (col_cells c)
            in if length col_data > 0 \<and> lib_to_datetime_raises L col_data
               then (fst st @ [\<lparr>ci_column = col_name c,
                                 ci_issue = ''Date format inconsistency'',
                                 ci_impact = - 5\<rparr>], snd st - 5)
               else st)
      else st)"

text \<open>Loop over the numeric columns: extreme outliers beyond three interquartile ranges.\<close>

definition consistency_range ::
  "pandas_lib \<Rightarrow> column \<Rightarrow> consistency_issue list \<times> int \<Rightarrow> consistency_issue list \<times> int" where
  "consistency_range L c st =
     (let col_data = dropna (col_cells c)
      in if length col_data > 10
         then (let q1 = lib_quantile L col_data 0.25;
                   q3 = lib_quantile L col_data 0.75;
                   iqr = q3 - q1;
                   extreme_low = count_where (\<lambda>v. cell_lt v (q1 - 3 * iqr)) col_data;
                   extreme_high = count_where (\<lambda>v. cell_gt v (q3 + 3 * iqr)) col_data
               in if real (extreme_low + extreme_high) > real (length col_data) * 0.01
                  then (fst st @ [\<lparr>ci_column = col_name c,
                                    ci_issue = ''Range inconsistency'',
                                    ci_impact = - 3\<rparr>], snd st - 3)
                  else st)
         else st)"

definition measure_consistency :: "pandas_lib \<Rightarrow> dataframe \<Rightarrow> consistency_result" where
  "measure_consistency L df =
     (let st1 = fold (consistency_case_ws L) (filter is_categorical (df_columns df)) ([], 100);
          st2 = fold (consistency_date L) (filter is_categorical (df_columns df)) st1;
          st3 = fold (consistency_range L) (filter is_numeric_col (df_columns df)) st2;
          consistency_issues = fst st3;
          consistency_score = snd st3
      in \<lparr>cons_score = max 0 consistency_score,
          cons_issues_found = length consistency_issues,
          cons_issues = consistency_issues,
          cons_threshold = 85,
          cons_status = (if consistency_score \<ge> 85 then ''pass''
                         else if consistency_score \<ge> 70 then ''warning'' else ''fail'')\<rparr>)"

section \<open>Accuracy\<close>

record accuracy_indicator =
  ai_column :: string
  ai_outlier_count :: nat
  ai_outlier_percentage :: real
  ai_lower_bound :: real
  ai_upper_bound :: real
  ai_status :: string

record accuracy_result =
  acc_score :: int
  acc_outlier_analysis :: "accuracy_indicator list"
  acc_threshold :: int
  acc_status :: string

text \<open>
  One iteration over a numeric column. The mean, median, standard deviation and skewness
  that the source also reports per column are left out of the indicator.
\<close>

definition accuracy_column ::
  "pandas_lib \<Rightarrow> column \<Rightarrow> accuracy_indicator list \<times> int \<Rightarrow> accuracy_indicator list \<times> int" where
  "accuracy_column L c st =
     (let col_data = dropna (col_cells c)
      in if length col_data < 10 then st
         else
          (let q1 = lib_quantile L col_data 0.25;
               q3 = lib_quantile L col_data 0.75;
               iqr = q3 - q1;
               lower_bound = q1 - 1.5 * iqr;
               upper_bound = q3 + 1.5 * iqr;
               outliers = count_where (\<lambda>v. cell_lt v lower_bound \<or> cell_gt v upper_bound) col_data;
               outlier_pct = real outliers / real (length col_data) * 100;
               accuracy_score = (if outlier_pct > 5 then snd st - 5
                                 else if outlier_pct > 2 then snd st - 2 else snd st)
           in (fst st @ [\<lparr>ai_column = col_name c,
                           ai_outlier_count = outliers,
                           ai_outlier_percentage = py_round 2 outlier_pct,
                           ai_lower_bound = py_round 4 lower_bound,
                           ai_upper_bound = py_round 4 upper_bound,
                           ai_status = (if outlier_pct \<le> 2 then ''pass''
                                        else if outlier_pct \<le> 5 then ''warning'' else ''fail'')\<rparr>],
               accuracy_score)))"

definition measure_accuracy :: "pandas_lib \<Rightarrow> dataframe \<Rightarrow> accuracy_result" where
  "measure_accuracy L df =
     (let st = fold (accuracy_column L) (filter is_numeric_col (df_columns df)) ([], 100);
          accuracy_score = snd st
      in \<lparr>acc_score = max 0 accuracy_score,
          acc_outlier_analysis = fst st,
          acc_threshold = 85,
          acc_status = (if accuracy_score \<ge> 85 then ''pass''
                        else if accuracy_score \<ge> 70 then ''warning'' else ''fail'')\<rparr>)"

section \<open>Timeliness\<close>

text \<open>
  The earliest and latest date of an analysis entry are kept as day numbers where the
  source formats them as text.
\<close>

record timeliness_entry =
  te_column :: string
  te_earliest_date :: int
  te_latest_date :: int
  te_days_since_latest :: "int option"
  te_timespan_days :: "int option"
  te_freshness :: string

record timeliness_result =
  time_datetime_columns_found :: nat
  time_analysis :: "timeliness_entry list"
  time_score :: "int option"
  time_threshold :: "int option"
  time_status :: string

text \<open>
  Python's \<^verbatim>\<open>days_old and days_old < k\<close>: \<open>None\<close> and the integer 0 are both falsy,
  so the comparison is only reached for a non-zero number of days.
\<close>

fun truthy_and_lt :: "int option \<Rightarrow> int \<Rightarrow> bool" where
  "truthy_and_lt None k = False"
| "truthy_and_lt (Some d) k = (d \<noteq> 0 \<and> d < k)"

fun truthy_and_gt :: "int option \<Rightarrow> int \<Rightarrow> bool" where
  "truthy_and_gt None k = False"
| "truthy_and_gt (Some d) k = (d \<noteq> 0 \<and> d > k)"

definition freshness :: "int option \<Rightarrow> string" where
  "freshness days_old =
     (if truthy_and_lt days_old 30 then ''current''
      else if truthy_and_lt days_old 90 then ''recent''
      else ''stale'')"

text \<open>\<^verbatim>\<open>timedelta.days\<close> of a difference of two instants given in seconds.\<close>

definition delta_days :: "int \<Rightarrow> int \<Rightarrow> int" where
  "delta_days later earlier = (later - earlier) div 86400"

fun stamp_of :: "cell \<Rightarrow> int option" where
  "stamp_of (Stamp t) = Some t"
| "stamp_of v = None"

text \<open>\<^verbatim>\<open>pd.to_datetime(self.df[col], errors='coerce')\<close>; a datetime column is returned as it is.\<close>

definition to_datetime :: "pandas_lib \<Rightarrow> column \<Rightarrow> int option list option" where
  "to_datetime L c =
     (if col_dtype c = Datetime64 then Some (map stamp_of (col_cells c))
      else lib_to_datetime L (col_cells c))"

definition valid_dates :: "int option list \<Rightarrow> int list" where
  "valid_dates dates = concat (map (\<lambda>d. case d of None \<Rightarrow> [] | Some t \<Rightarrow> [t]) dates)"

definition list_max :: "int list \<Rightarrow> int" where
  "list_max xs = fold max xs (hd xs)"

definition list_min :: "int list \<Rightarrow> int" where
  "list_min xs = fold min xs (hd xs)"

text \<open>A string column joins the date columns when its name has a keyword and more than half of the rows parse.\<close>

definition parses_as_dates :: "pandas_lib \<Rightarrow> dataframe \<Rightarrow> column \<Rightarrow> bool" where
  "parses_as_dates L df c =
     (any_keyword [''date'', ''time'', ''created'', ''updated'', ''timestamp''] (col_name c)
      \<and> (case to_datetime L c of
            None \<Rightarrow> False
          | Some parsed \<Rightarrow> real (length (valid_dates parsed)) > real (n_rows df) * 0.5))"

definition date_cols :: "pandas_lib \<Rightarrow> dataframe \<Rightarrow> column list" where
  "date_cols L df =
     filter (\<lambda>c. col_dtype c = Datetime64) (df_columns df)
     @ filter (parses_as_dates L df) (filter is_categorical (df_columns df))"

text \<open>The body of \<^verbatim>\<open>for col in date_cols[:3]\<close>; an exception inside it is passed over.\<close>

definition timeliness_column ::
  "pandas_lib \<Rightarrow> int \<Rightarrow> column \<Rightarrow> timeliness_entry list \<times> int \<Rightarrow> timeliness_entry list \<times> int" where
  "timeliness_column L now c st =
     (case to_datetime L c of
        None \<Rightarrow> st
      | Some dates \<Rightarrow>
         (let valid = valid_dates dates
          in if length valid > 0
             then (let max_date = list_max valid;
                       min_date = list_min valid;
                       days_old = Some (delta_days now max_date);
                       timespan_days = Some (delta_days max_date min_date);
                       timeliness_score =
                         (if truthy_and_gt days_old 365 then snd st - 20
                          else if truthy_and_gt days_old 90 then snd st - 10
                          else snd st)
                   in (fst st @ [\<lparr>te_column = col_name c,
                                   te_earliest_date = min_date div 86400,
                                   te_latest_date = max_date div 86400,
                                   te_days_since_latest = days_old,
                                   te_timespan_days = timespan_days,
                                   te_freshness = freshness days_old\<rparr>],
                       timeliness_score))
             else st))"

definition measure_timeliness :: "pandas_lib \<Rightarrow> int \<Rightarrow> dataframe \<Rightarrow> timeliness_result" where
  "measure_timeliness L now df =
     (let dcs = date_cols L df
      in if length dcs = 0
         then \<lparr>time_datetime_columns_found = length (datetime_cols df),
               time_analysis = [],
               time_score = None,
               time_threshold = None,
               time_status = ''unknown''\<rparr>
         else (let st = fold (timeliness_column L now) (take 3 dcs) ([], 100);
                   timeliness_score = snd st
               in \<lparr>time_datetime_columns_found = length (datetime_cols df),
                   time_analysis = fst st,
                   time_score = Some (max 0 timeliness_score),
                   time_threshold = Some 80,
                   time_status = (if timeliness_score \<ge> 80 then ''pass''
                                  else if timeliness_score \<ge> 60 then ''warning''
                                  else ''fail'')\<rparr>))"

section \<open>ML readiness\<close>

text \<open>
  Of a class-balance entry the column, the number of classes, the imbalance ratio and the
  status are kept; the majority and minority percentages are display data.
\<close>

record correlation_entry =
  ce_column1 :: string
  ce_column2 :: string
  ce_correlation :: real
  ce_risk :: string

record class_balance_entry =
  cb_column :: string
  cb_num_classes :: nat
  cb_imbalance_ratio :: "real option"
  cb_status :: string

record ml_result =
  ml_high_correlations :: "correlation_entry list"
  ml_multicollinearity_risk :: nat
  ml_class_balance_analysis :: "class_balance_entry list"
  ml_low_variance_features :: "string list"
  ml_score :: int
  ml_status :: string

text \<open>The pairs \<open>(i, j)\<close> with \<open>i < j\<close>, in the order of the nested loops.\<close>

fun pairs_of :: "'a list \<Rightarrow> ('a \<times> 'a) list" where
  "pairs_of [] = []"
| "pairs_of (x # xs) = map (Pair x) xs @ pairs_of xs"

definition correlation_of :: "pandas_lib \<Rightarrow> column \<times> column \<Rightarrow> correlation_entry list" where
  "correlation_of L p =
     (case lib_corr L (col_cells (fst p)) (col_cells (snd p)) of
        None \<Rightarrow> []
      | Some corr_val \<Rightarrow>
          (if \<bar>corr_val\<bar> \<ge> 0.7
           then [\<lparr>ce_column1 = col_name (fst p), ce_column2 = col_name (snd p),
                  ce_correlation = py_round 4 corr_val,
                  ce_risk = (if \<bar>corr_val\<bar> \<ge> 0.9 then ''multicollinearity''
                             else ''high_correlation'')\<rparr>]
           else []))"

text \<open>\<^verbatim>\<open>value_counts(normalize=True)\<close>: the share of each distinct non-missing value.\<close>

definition value_shares :: "cell list \<Rightarrow> real list" where
  "value_shares cs =
     (let col_data = dropna cs
      in map (\<lambda>v. real (count_list col_data v) / real (length col_data)) (py_unique [] col_data))"

definition real_max :: "real list \<Rightarrow> real" where
  "real_max xs = fold max xs (hd xs)"

definition real_min :: "real list \<Rightarrow> real" where
  "real_min xs = fold min xs (hd xs)"

text \<open>The imbalance ratio is \<open>None\<close> where the source takes \<^verbatim>\<open>float('inf')\<close>.\<close>

definition class_balance_of :: "column \<Rightarrow> class_balance_entry list" where
  "class_balance_of c =
     (let unique_count = nunique (col_cells c)
      in if 2 \<le> unique_count \<and> unique_count \<le> 20
         then (let value_counts = value_shares (col_cells c);
                   imbalance_ratio = (if real_min value_counts > 0
                                      then Some (real_max value_counts / real_min value_counts)
                                      else None)
               in [\<lparr>cb_column = col_name c,
                    cb_num_classes = unique_count,
                    cb_imbalance_ratio = map_option (py_round 2) imbalance_ratio,
                    cb_status = (case imbalance_ratio of
                                   None \<Rightarrow> ''severely_imbalanced''
                                 | Some r \<Rightarrow> if r < 3 then ''balanced''
                                             else if r < 10 then ''imbalanced''
                                             else ''severely_imbalanced'')\<rparr>])
         else [])"

definition low_variance :: "pandas_lib \<Rightarrow> column \<Rightarrow> bool" where
  "low_variance L c = (case lib_var L (col_cells c) of None \<Rightarrow> False | Some v \<Rightarrow> v < 0.01)"

definition measure_ml_readiness :: "pandas_lib \<Rightarrow> dataframe \<Rightarrow> ml_result" where
  "measure_ml_readiness L df =
     (let numeric = filter is_numeric_col (df_columns df);
          correlations = (if length numeric \<ge> 2
                          then concat (map (correlation_of L) (pairs_of numeric)) else []);
          class_balance = concat (map class_balance_of (filter is_categorical (df_columns df)));
          low_variance_features = filter (low_variance L) numeric;
          score = 100 - int (length correlations) * 3
                      - int (length low_variance_features) * 5
                      - int (length (filter (\<lambda>c. cb_status c = ''severely_imbalanced'')
                                       class_balance)) * 10
      in \<lparr>ml_high_correlations = correlations,
          ml_multicollinearity_risk =
            length (filter (\<lambda>c. ce_risk c = ''multicollinearity'') correlations),
          ml_class_balance_analysis = class_balance,
          ml_low_variance_features = map col_name low_variance_features,
          ml_score = max 0 score,
          ml_status = (if score \<ge> 80 then ''ready''
                       else if score \<ge> 60 then ''needs_improvement'' else ''not_ready'')\<rparr>)"

section \<open>Overall score\<close>

text \<open>A Python dict is an association list in insertion order with distinct keys.\<close>

type_synonym 'v py_dict = "(string \<times> 'v) list"

definition dict_set :: "'v py_dict \<Rightarrow> string \<Rightarrow> 'v \<Rightarrow> 'v py_dict" where
  "dict_set d k v =
     (if k \<in> set (map fst d) then map (\<lambda>(k', v'). if k' = k then (k', v) else (k', v')) d
      else d @ [(k, v)])"

definition dict_get :: "'v py_dict \<Rightarrow> string \<Rightarrow> py_error + 'v" where
  "dict_get d k = (case map_of d k of None \<Rightarrow> Inl KeyError | Some v \<Rightarrow> Inr v)"

definition base_weights :: "real py_dict" where
  "base_weights =
     [(''completeness'', 0.25), (''uniqueness'', 0.15), (''validity'', 0.15),
      (''consistency'', 0.15), (''accuracy'', 0.20), (''timeliness'', 0.10)]"

text \<open>
  The else branch: \<^verbatim>\<open>weights["timeliness"] = 0\<close>, then every other weight is
  increased by \<^verbatim>\<open>0.10 / 5\<close>.
\<close>

definition redistribute :: "real py_dict \<Rightarrow> real py_dict" where
  "redistribute weights =
     map (\<lambda>(k, w). if k \<noteq> ''timeliness'' then (k, w + 0.10 / 5) else (k, w))
       (dict_set weights ''timeliness'' 0)"

definition effective_weights :: "real option \<Rightarrow> real py_dict" where
  "effective_weights timeliness =
     (case timeliness of Some t \<Rightarrow> base_weights | None \<Rightarrow> redistribute base_weights)"

definition dimension_scores ::
  "real \<Rightarrow> real \<Rightarrow> real \<Rightarrow> real \<Rightarrow> real \<Rightarrow> real option \<Rightarrow> real py_dict" where
  "dimension_scores completeness uniqueness validity consistency accuracy timeliness =
     (let scores = [(''completeness'', completeness), (''uniqueness'', uniqueness),
                    (''validity'', validity), (''consistency'', consistency),
                    (''accuracy'', accuracy)]
      in case timeliness of
           Some t \<Rightarrow> dict_set scores ''timeliness'' t
         | None \<Rightarrow> scores)"

text \<open>\<^verbatim>\<open>sum(scores[k] * weights[k] for k in scores)\<close>\<close>

fun weighted_sum :: "real py_dict \<Rightarrow> real py_dict \<Rightarrow> real \<Rightarrow> py_error + real" where
  "weighted_sum [] weights acc = Inr acc"
| "weighted_sum ((k, s) # scores) weights acc =
     (case dict_get weights k of
        Inl e \<Rightarrow> Inl e
      | Inr w \<Rightarrow> weighted_sum scores weights (acc + s * w))"

text \<open>The local variable \<^verbatim>\<open>overall_score\<close>, before the report rounds it.\<close>

definition overall_score_of ::
  "real \<Rightarrow> real \<Rightarrow> real \<Rightarrow> real \<Rightarrow> real \<Rightarrow> real option \<Rightarrow> py_error + real" where
  "overall_score_of completeness uniqueness validity consistency accuracy timeliness =
     weighted_sum
       (dimension_scores completeness uniqueness validity consistency accuracy timeliness)
       (effective_weights timeliness) 0"

definition determine_grade :: "real \<Rightarrow> string \<times> string" where
  "determine_grade overall_score =
     (if overall_score \<ge> 90 then (''A'', ''Excellent - Production Ready'')
      else if overall_score \<ge> 80 then (''B'', ''Good - Minor Improvements Needed'')
      else if overall_score \<ge> 70 then (''C'', ''Fair - Several Issues to Address'')
      else if overall_score \<ge> 60 then (''D'', ''Poor - Significant Work Required'')
      else (''F'', ''Failing - Major Quality Issues''))"

record overall_result =
  ov_overall_score :: real
  ov_grade :: string
  ov_grade_description :: string
  ov_dimension_scores :: "real py_dict"
  ov_weights :: "real py_dict"
  ov_ml_readiness_score :: int
  ov_ml_readiness_status :: string

text \<open>\<^verbatim>\<open>calculate_overall_score\<close> from the weights on, given the measured scores.\<close>

definition aggregate ::
  "real \<Rightarrow> real \<Rightarrow> real \<Rightarrow> real \<Rightarrow> real \<Rightarrow> real option \<Rightarrow> int \<Rightarrow> string
   \<Rightarrow> py_error + overall_result" where
  "aggregate completeness uniqueness validity consistency accuracy timeliness ml_sc ml_st =
     (case overall_score_of completeness uniqueness validity consistency accuracy timeliness of
        Inl e \<Rightarrow> Inl e
      | Inr overall_score \<Rightarrow>
          Inr \<lparr>ov_overall_score = py_round 1 overall_score,
               ov_grade = fst (determine_grade overall_score),
               ov_grade_description = snd (determine_grade overall_score),
               ov_dimension_scores =
                 map (\<lambda>(k, v). (k, py_round 1 v))
                   (dimension_scores completeness uniqueness validity consistency accuracy
                      timeliness),
               ov_weights = effective_weights timeliness,
               ov_ml_readiness_score = ml_sc,
               ov_ml_readiness_status = ml_st\<rparr>)"

definition calculate_overall_score ::
  "pandas_lib \<Rightarrow> int \<Rightarrow> dataframe \<Rightarrow> py_error + overall_result" where
  "calculate_overall_score L now df =
     (case measure_completeness df of
        Inl e \<Rightarrow> Inl e
      | Inr completeness \<Rightarrow>
     (case measure_uniqueness df of
        Inl e \<Rightarrow> Inl e
      | Inr uniqueness \<Rightarrow>
     (case measure_validity L df of
        Inl e \<Rightarrow> Inl e
      | Inr validity \<Rightarrow>
         (let consistency = measure_consistency L df;
              accuracy = measure_accuracy L df;
              timeliness = measure_timeliness L now df;
              ml_readiness = measure_ml_readiness L df
          in aggregate (comp_score completeness) (uniq_score uniqueness) (val_score validity)
               (of_int (cons_score consistency)) (of_int (acc_score accuracy))
               (map_option of_int (time_score timeliness))
               (ml_score ml_readiness) (ml_status ml_readiness)))))"

section \<open>Model recommender\<close>

text \<open>
  The data profile of \<^verbatim>\<open>ModelRecommender._analyze_data\<close>. A key that the source leaves
  out of the dict is \<open>None\<close> here. The memory estimate and the target's mean, standard
  deviation and skewness are not part of the record; the exception that computing them
  raises for a target that is not numeric is.
\<close>

record data_profile =
  dp_rows :: nat
  dp_columns :: nat
  dp_numeric_columns :: nat
  dp_categorical_columns :: nat
  dp_datetime_columns :: nat
  dp_missing_percentage :: "real option"
  dp_has_missing :: bool
  dp_target_column :: "string option"
  dp_task_type :: string
  dp_num_classes :: "nat option"
  dp_imbalance_ratio :: "real option"
  dp_is_imbalanced :: "bool option"
  dp_size_category :: string

text \<open>\<^verbatim>\<open>isna().sum().sum() / df.size * 100\<close> on numpy numbers: NaN (\<open>None\<close>) for an empty frame.\<close>

definition missing_pct :: "dataframe \<Rightarrow> real option" where
  "missing_pct df =
     (if df_size df = 0 then None
      else Some (real (sum_list (map (\<lambda>c. isna_sum (col_cells c)) (df_columns df)))
                 / real (df_size df) * 100))"

definition size_category :: "nat \<Rightarrow> string" where
  "size_category rows =
     (if rows < 1000 then ''small'' else if rows < 100000 then ''medium'' else ''large'')"

text \<open>
  The class imbalance of the classification branch: 999 when the smallest share is not
  positive, which is also the case of a target without any value.
\<close>

definition target_imbalance :: "cell list \<Rightarrow> real" where
  "target_imbalance cs =
     (let value_counts = value_shares cs
      in if value_counts \<noteq> [] \<and> real_min value_counts > 0
         then real_max value_counts / real_min value_counts
         else 999)"

definition analyze_data :: "dataframe \<Rightarrow> string option \<Rightarrow> py_error + data_profile" where
  "analyze_data df target_column =
     (let mp = missing_pct df;
          profile =
            \<lparr>dp_rows = n_rows df,
             dp_columns = length (df_columns df),
             dp_numeric_columns = length (numeric_cols df),
             dp_categorical_columns = length (categorical_cols df),
             dp_datetime_columns = length (datetime_cols df),
             dp_missing_percentage = map_option (py_round 2) mp,
             dp_has_missing = (case mp of None \<Rightarrow> False | Some x \<Rightarrow> x > 0),
             dp_target_column = None,
             dp_task_type = ''unknown'',
             dp_num_classes = None,
             dp_imbalance_ratio = None,
             dp_is_imbalanced = None,
             dp_size_category = size_category (n_rows df)\<rparr>
      in case target_column of
           None \<Rightarrow> Inr profile
         | Some t \<Rightarrow>
            (if t \<noteq> [] \<and> t \<in> set (column_names df)
             then (case get_column df t of
                     Inl e \<Rightarrow> Inl e
                   | Inr target \<Rightarrow>
                      (if col_dtype target = Object \<or> nunique (col_cells target) \<le> 20
                       then (let imbalance_ratio = target_imbalance (col_cells target)
                             in Inr (profile
                                  \<lparr>dp_target_column := Some t,
                                   dp_task_type := ''classification'',
                                   dp_num_classes := Some (nunique (col_cells target)),
                                   dp_imbalance_ratio := Some (py_round 2 imbalance_ratio),
                                   dp_is_imbalanced := Some (imbalance_ratio > 3)\<rparr>))
                       else if is_number (col_dtype target)
                       then Inr (profile\<lparr>dp_target_column := Some t,
                                         dp_task_type := ''regression''\<rparr>)
                       else Inl TypeError))
             else Inr profile))"

text \<open>\<^verbatim>\<open>_score_model\<close>: the score after each \<^verbatim>\<open>if\<close> of the source, in its order.\<close>

definition boosting :: "string list" where
  "boosting = [''xgboost'', ''lightgbm'', ''catboost'']"

definition score_model :: "data_profile \<Rightarrow> string \<Rightarrow> int" where
  "score_model profile model_id =
     (let score0 = 50;
          score1 = (if model_id = ''lightgbm'' \<and> dp_size_category profile = ''large''
                    then score0 + 20 else score0);
          score2 = (if model_id = ''logistic_regression'' \<and> dp_size_category profile = ''small''
                    then score1 + 15 else score1);
          score3 = (if model_id \<in> set boosting \<and> dp_size_category profile = ''medium''
                    then score2 + 10 else score2);
          score4 = (if model_id = ''catboost'' \<and> dp_categorical_columns profile > 3
                    then score3 + 25 else score3);
          score5 = (if model_id = ''lightgbm'' \<and> dp_categorical_columns profile > 5
                    then score4 + 15 else score4);
          score6 = (if dp_has_missing profile \<and> model_id \<in> set boosting
                    then score5 + 10 else score5);
          score7 = (if dp_is_imbalanced profile = Some True \<and> model_id = ''xgboost''
                    then score6 + 15 else score6);
          score8 = (if model_id \<in> set boosting then score7 + 10 else score7);
          score9 = (if model_id \<in> set [''logistic_regression'', ''linear_regression'']
                    then score8 - 5 else score8)
      in score9)"

text \<open>The same nine heuristics, each as the change it makes to a running score.\<close>

definition heuristics :: "data_profile \<Rightarrow> string \<Rightarrow> (int \<Rightarrow> int) list" where
  "heuristics profile model_id =
     [\<lambda>score. if model_id = ''lightgbm'' \<and> dp_size_category profile = ''large''
               then score + 20 else score,
      \<lambda>score. if model_id = ''logistic_regression'' \<and> dp_size_category profile = ''small''
               then score + 15 else score,
      \<lambda>score. if model_id \<in> set boosting \<and> dp_size_category profile = ''medium''
               then score + 10 else score,
      \<lambda>score. if model_id = ''catboost'' \<and> dp_categorical_columns profile > 3
               then score + 25 else score,
      \<lambda>score. if model_id = ''lightgbm'' \<and> dp_categorical_columns profile > 5
               then score + 15 else score,
      \<lambda>score. if dp_has_missing profile \<and> model_id \<in> set boosting
               then score + 10 else score,
      \<lambda>score. if dp_is_imbalanced profile = Some True \<and> model_id = ''xgboost''
               then score + 15 else score,
      \<lambda>score. if model_id \<in> set boosting then score + 10 else score,
      \<lambda>score. if model_id \<in> set [''logistic_regression'', ''linear_regression'']
               then score - 5 else score]"

definition run_heuristics :: "(int \<Rightarrow> int) list \<Rightarrow> int \<Rightarrow> int" where
  "run_heuristics hs score = fold (\<lambda>h s. h s) hs score"

record recommendation =
  rec_id :: string
  rec_rank :: nat
  rec_score :: int

definition available_models :: "string \<Rightarrow> string list" where
  "available_models task =
     (if task = ''classification''
      then [''xgboost'', ''lightgbm'', ''catboost'', ''random_forest'',
            ''logistic_regression'', ''gradient_boosting'']
      else if task = ''regression''
      then [''xgboost'', ''lightgbm'', ''catboost'', ''random_forest'',
            ''linear_regression'', ''gradient_boosting'']
      else [''random_forest'', ''xgboost'', ''lightgbm''])"

text \<open>The slice \<^verbatim>\<open>xs[:n]\<close>; a negative \<open>n\<close> counts from the end.\<close>

definition py_take :: "int \<Rightarrow> 'a list \<Rightarrow> 'a list" where
  "py_take n xs = (if n \<ge> 0 then take (nat n) xs else take (nat (int (length xs) + n)) xs)"

text \<open>
  \<^verbatim>\<open>sorted(scores.items(), key=lambda x: x[1], reverse=True)\<close> is a stable sort by
  descending score. Of each recommendation the id, rank and score are kept; the catalogue
  texts and the reason string are display data.
\<close>

definition sorted_models :: "data_profile \<Rightarrow> (string \<times> int) list" where
  "sorted_models profile =
     sort_key (\<lambda>x. - snd x)
       (map (\<lambda>model. (model, score_model profile model))
          (available_models (dp_task_type profile)))"

definition get_recommendations :: "data_profile \<Rightarrow> int \<Rightarrow> recommendation list" where
  "get_recommendations profile top_n =
     map (\<lambda>(i, (model_id, score)). \<lparr>rec_id = model_id, rec_rank = i + 1, rec_score = score\<rparr>)
       (enumerate 0 (py_take top_n (sorted_models profile)))"

text \<open>\<^verbatim>\<open>ModelRecommender(df, target_column).get_recommendations(top_n)\<close>\<close>

definition recommend :: "dataframe \<Rightarrow> string option \<Rightarrow> int \<Rightarrow> py_error + recommendation list" where
  "recommend df target_column top_n =
     (case analyze_data df target_column of
        Inl e \<Rightarrow> Inl e
      | Inr profile \<Rightarrow> Inr (get_recommendations profile top_n))"

text \<open>The task type that the recommender's profile carries.\<close>

definition recommender_task_type :: "dataframe \<Rightarrow> string option \<Rightarrow> py_error + string" where
  "recommender_task_type df target_column =
     (case analyze_data df target_column of
        Inl e \<Rightarrow> Inl e
      | Inr profile \<Rightarrow> Inr (dp_task_type profile))"

section \<open>Model trainer\<close>



section \<open>Rounding keeps a percentage a percentage\<close>




lemma py_round_zero: "py_round nd 0 = 0"
  by (simp add: py_round_def round_half_even_def)

lemma py_round_int: "py_round nd (of_int k) = of_int k"
proof -
  have "real_of_int k * 10 ^ nd = of_int (k * 10 ^ nd)" by simp
  then have "round_half_even (real_of_int k * 10 ^ nd) = k * 10 ^ nd"
    by (simp only: round_half_even_def Let_def floor_of_int) simp
  then show ?thesis by (simp add: py_round_def)
qed

section \<open>The aggregator\<close>





section \<open>Timeliness: freshness\<close>

text \<open>
  Claim C5. The freshness label should be "current" for fewer than 30 days since the
  latest date. For a date column whose latest date is less than one day old the number of
  days is 0, which Python's \<^verbatim>\<open>days_old and days_old < 30\<close> treats as false: the
  column is reported as "stale".
\<close>

theorem freshness_of_todays_data:
  "freshness (Some 0) = ''stale''
   \<and> map (\<lambda>e. (te_days_since_latest e, te_freshness e))
       (time_analysis (measure_timeliness L now
          \<lparr>n_rows = 1,
           df_columns = [\<lparr>col_name = ''created_at'', col_dtype = Datetime64,
                          col_cells = [Stamp now]\<rparr>]\<rparr>))
     = [(Some 0, ''stale'')]"
  by (simp add: measure_timeliness_def date_cols_def timeliness_column_def to_datetime_def
      valid_dates_def list_max_def list_min_def delta_days_def freshness_def is_categorical_def
      Let_def)


section \<open>Validity: numeric columns\<close>

lemma numeric_name_in_numeric_cols:
  "c \<in> set (df_columns df) \<Longrightarrow> is_number (col_dtype c) \<Longrightarrow> col_name c \<in> set (numeric_cols df)"
  by (auto simp: numeric_cols_def)

text \<open>
  Claim C10. In the Validity measurement a numeric column with at least one value that
  is not missing adds exactly two checks to the total (the infinity check and the
  negative-value check), whatever its numeric type and name. When its name has no
  positivity keyword the negative-value check counts as passed, so the column adds one
  to the passed checks for it, and one more unless infinite values were found.
\<close>

theorem validity_numeric_column_checks:
  assumes "c \<in> set (df_columns df)" and "is_number (col_dtype c)"
    and "dropna (col_cells c) \<noteq> []"
  shows "vs_total_checks (validity_column L df c st) = vs_total_checks st + 2
    \<and> (\<not> any_keyword positive_keywords (col_name c) \<longrightarrow>
         vs_passed_checks (validity_column L df c st)
         = vs_passed_checks st
           + (if (col_dtype c = Float64 \<or> col_dtype c = Float32)
                 \<and> count_where is_inf (dropna (col_cells c)) > 0 then 0 else 1)
           + 1
         \<and> vs_passed_checks (validity_column L df c st) \<ge> vs_passed_checks st + 1)"
  using assms numeric_name_in_numeric_cols [OF assms(1,2)]
  by (simp add: validity_column_def numeric_checks_def Let_def)

theorem validity_numeric_column_checks_witness:
  "(let c = \<lparr>col_name = ''id'', col_dtype = Int64, col_cells = [Num 7, NA]\<rparr>;
        df = \<lparr>n_rows = 2, df_columns = [c]\<rparr>;
        st = \<lparr>vs_issues = [], vs_total_checks = 0, vs_passed_checks = 0\<rparr>;
        L = \<lparr>lib_email_match = (\<lambda>s. True), lib_py_str = (\<lambda>v. []),
             lib_to_datetime = (\<lambda>cs. None), lib_to_datetime_raises = (\<lambda>cs. False),
             lib_quantile = (\<lambda>cs q. 0), lib_corr = (\<lambda>xs ys. None),
             lib_var = (\<lambda>cs. None)\<rparr>
    in c \<in> set (df_columns df) \<and> is_number (col_dtype c) \<and> dropna (col_cells c) \<noteq> []
       \<and> \<not> any_keyword positive_keywords (col_name c)
       \<and> vs_total_checks (validity_column L df c st) = 2
       \<and> vs_passed_checks (validity_column L df c st) = 2)"
  using validity_numeric_column_checks
    [of "\<lparr>col_name = ''id'', col_dtype = Int64, col_cells = [Num 7, NA]\<rparr>"
        "\<lparr>n_rows = 2, df_columns = [\<lparr>col_name = ''id'', col_dtype = Int64, col_cells = [Num 7, NA]\<rparr>]\<rparr>"
        "\<lparr>lib_email_match = (\<lambda>s. True), lib_py_str = (\<lambda>v. []),
             lib_to_datetime = (\<lambda>cs. None), lib_to_datetime_raises = (\<lambda>cs. False),
             lib_quantile = (\<lambda>cs q. 0), lib_corr = (\<lambda>xs ys. None),
             lib_var = (\<lambda>cs. None)\<rparr>"
        "\<lparr>vs_issues = [], vs_total_checks = 0, vs_passed_checks = 0\<rparr>"]
  by (simp add: Let_def is_number_def dropna_def any_keyword_def positive_keywords_def
      py_lower_def lower_char_def)

section \<open>Recommendation scores and ranking\<close>

lemma heuristics_additive:
  "h \<in> set (heuristics p m) \<Longrightarrow> h s = s + h 0"
  by (auto simp: heuristics_def)

lemma run_heuristics_sum:
  "(\<And>h s. h \<in> set hs \<Longrightarrow> h s = s + h 0) \<Longrightarrow>
   run_heuristics hs s = s + sum_list (map (\<lambda>h. h 0) hs)"
proof (induction hs arbitrary: s)
  case Nil
  then show ?case by (simp add: run_heuristics_def)
next
  case (Cons h hs)
  have "run_heuristics (h # hs) s = run_heuristics hs (h s)"
    by (simp add: run_heuristics_def)
  also have "\<dots> = h s + sum_list (map (\<lambda>h. h 0) hs)"
    using Cons.prems by (intro Cons.IH) simp
  also have "h s = s + h 0" using Cons.prems by simp
  finally show ?case by simp
qed

lemma score_model_run: "score_model p m = run_heuristics (heuristics p m) 50"
  by (simp add: score_model_def run_heuristics_def heuristics_def Let_def)

lemma run_heuristics_permuted:
  assumes "mset hs = mset (heuristics p m)"
  shows "run_heuristics hs 50 = score_model p m"
proof -
  have s: "set hs = set (heuristics p m)" using assms by (rule mset_eq_setD)
  have "run_heuristics hs 50 = 50 + sum_list (map (\<lambda>h. h 0) hs)"
    using s by (intro run_heuristics_sum) (auto intro: heuristics_additive)
  also have "sum_list (map (\<lambda>h. h 0) hs) = sum_mset (image_mset (\<lambda>h. h 0) (mset hs))"
    by (metis mset_map sum_mset_sum_list)
  also have "\<dots> = sum_list (map (\<lambda>h. h 0) (heuristics p m))"
    unfolding assms by (metis mset_map sum_mset_sum_list)
  also have "50 + \<dots> = run_heuristics (heuristics p m) 50"
    by (rule run_heuristics_sum [symmetric]) (rule heuristics_additive)
  finally show ?thesis by (simp add: score_model_run)
qed


lemma sorted_models_descending:
  "sorted_wrt (\<lambda>a b. snd a \<ge> snd b) (sorted_models p)"
proof -
  have "sorted (map (\<lambda>x. - snd x) (sorted_models p))"
    unfolding sorted_models_def by (rule sorted_sort_key)
  then show ?thesis by (simp add: sorted_wrt_map)
qed

lemma sorted_models_set:
  "set (sorted_models p)
   = (\<lambda>model. (model, score_model p model)) ` set (available_models (dp_task_type p))"
  by (simp add: sorted_models_def)

lemma sorted_models_ties:
  "filter (\<lambda>x. snd x = k) (sorted_models p)
   = map (\<lambda>model. (model, k))
       (filter (\<lambda>model. score_model p model = k) (available_models (dp_task_type p)))"
proof -
  have "filter (\<lambda>x. - snd x = - k) (sorted_models p)
        = filter (\<lambda>x. - snd x = - k)
            (map (\<lambda>model. (model, score_model p model)) (available_models (dp_task_type p)))"
    unfolding sorted_models_def by (rule sort_key_stable)
  then show ?thesis by (simp add: filter_map comp_def cong: map_cong)
qed

lemma py_take_is_take: "\<exists>n. py_take k xs = take n xs"
  by (auto simp: py_take_def)

lemma recommendations_pairs:
  "map (\<lambda>r. (rec_id r, rec_score r)) (get_recommendations p top_n)
   = py_take top_n (sorted_models p)"
proof -
  have "map (\<lambda>r. (rec_id r, rec_score r)) (get_recommendations p top_n)
        = map snd (enumerate 0 (py_take top_n (sorted_models p)))"
    by (simp add: get_recommendations_def comp_def case_prod_beta)
  then show ?thesis by (simp only: map_snd_enumerate)
qed

lemma recommendations_ranks:
  "map rec_rank (get_recommendations p top_n) = [1..<Suc (length (get_recommendations p top_n))]"
proof -
  let ?ys = "py_take top_n (sorted_models p)"
  have "map rec_rank (get_recommendations p top_n) = map (\<lambda>x. Suc (fst x)) (enumerate 0 ?ys)"
    by (simp add: get_recommendations_def comp_def case_prod_beta)
  also have "\<dots> = map Suc (map fst (enumerate 0 ?ys))"
    by (simp only: map_map comp_def)
  also have "\<dots> = map Suc [0..<0 + length ?ys]"
    by (simp only: map_fst_enumerate)
  also have "\<dots> = [1..<Suc (length ?ys)]"
    by (simp add: map_Suc_upt)
  finally show ?thesis by (simp add: get_recommendations_def)
qed

lemma recommendations_sorted:
  "sorted_wrt (\<lambda>a b. rec_score a \<ge> rec_score b) (get_recommendations p top_n)"
proof -
  obtain n where n: "py_take top_n (sorted_models p) = take n (sorted_models p)"
    using py_take_is_take by blast
  have "sorted_wrt (\<lambda>a b. snd a \<ge> snd b) (take n (sorted_models p))"
    by (rule sorted_wrt_take) (rule sorted_models_descending)
  then have "sorted_wrt (\<lambda>a b. snd a \<ge> snd b)
               (map (\<lambda>r. (rec_id r, rec_score r)) (get_recommendations p top_n))"
    by (simp only: recommendations_pairs n)
  then show ?thesis by (simp add: sorted_wrt_map)
qed

lemma recommendations_members:
  assumes "r \<in> set (get_recommendations p top_n)"
  shows "rec_id r \<in> set (available_models (dp_task_type p))"
    and "rec_score r = score_model p (rec_id r)"
proof -
  obtain n where n: "py_take top_n (sorted_models p) = take n (sorted_models p)"
    using py_take_is_take by blast
  have "(rec_id r, rec_score r) \<in> set (map (\<lambda>r. (rec_id r, rec_score r)) (get_recommendations p top_n))"
    using assms by force
  then have "(rec_id r, rec_score r) \<in> set (take n (sorted_models p))"
    by (simp only: recommendations_pairs n)
  then have "(rec_id r, rec_score r) \<in> set (sorted_models p)"
    by (rule in_set_takeD)
  then show "rec_id r \<in> set (available_models (dp_task_type p))"
    and "rec_score r = score_model p (rec_id r)"
    by (auto simp: sorted_models_set)
qed


text \<open>
  Claim C8. For every data profile, model and requested top-N: the score of the model is
  the base score 50 changed by nine heuristics, each of which adds a fixed amount that
  does not depend on the running score, so the total is 50 plus the sum of the amounts
  and is the same in whatever order the heuristics run. The recommendations are the
  first top-N entries of the models of the task type sorted by descending score; their
  ranks are 1, 2, ... in list order, each carries its model's score, and models with equal
  scores stay in the order of the list of available models.
\<close>

theorem recommendation_scores_and_ranking:
  "score_model p m = run_heuristics (heuristics p m) 50
   \<and> (\<forall>h\<in>set (heuristics p m). \<forall>s. h s = s + h 0)
   \<and> score_model p m = 50 + sum_list (map (\<lambda>h. h 0) (heuristics p m))
   \<and> (\<forall>hs. mset hs = mset (heuristics p m) \<longrightarrow> run_heuristics hs 50 = score_model p m)
   \<and> map (\<lambda>r. (rec_id r, rec_score r)) (get_recommendations p top_n)
       = py_take top_n (sorted_models p)
   \<and> sorted_wrt (\<lambda>a b. rec_score a \<ge> rec_score b) (get_recommendations p top_n)
   \<and> map rec_rank (get_recommendations p top_n)
       = [1..<Suc (length (get_recommendations p top_n))]
   \<and> (\<forall>r\<in>set (get_recommendations p top_n).
         rec_id r \<in> set (available_models (dp_task_type p))
         \<and> rec_score r = score_model p (rec_id r))
   \<and> (\<forall>k. filter (\<lambda>x. snd x = k) (sorted_models p)
           = map (\<lambda>model. (model, k))
               (filter (\<lambda>model. score_model p model = k)
                  (available_models (dp_task_type p))))"
proof -
  have "score_model p m = 50 + sum_list (map (\<lambda>h. h 0) (heuristics p m))"
    unfolding score_model_run by (rule run_heuristics_sum) (rule heuristics_additive)
  moreover have "\<forall>h\<in>set (heuristics p m). \<forall>s. h s = s + h 0"
    using heuristics_additive by blast
  moreover have "\<forall>hs. mset hs = mset (heuristics p m) \<longrightarrow> run_heuristics hs 50 = score_model p m"
    using run_heuristics_permuted by blast
  moreover have "\<forall>r\<in>set (get_recommendations p top_n).
         rec_id r \<in> set (available_models (dp_task_type p))
         \<and> rec_score r = score_model p (rec_id r)"
    using recommendations_members by blast
  moreover note score_model_run [of p m] recommendations_pairs [of p top_n]
    recommendations_sorted [of p top_n] recommendations_ranks [of p top_n]
  moreover have "\<forall>k. filter (\<lambda>x. snd x = k) (sorted_models p)
           = map (\<lambda>model. (model, k))
               (filter (\<lambda>model. score_model p model = k)
                  (available_models (dp_task_type p)))"
    using sorted_models_ties by blast
  ultimately show ?thesis by (intro conjI)
qed

theorem recommendation_scores_and_ranking_witness:
  "(let p = \<lparr>dp_rows = 5000, dp_columns = 9, dp_numeric_columns = 4, dp_categorical_columns = 4,
             dp_datetime_columns = 1, dp_missing_percentage = Some 1.5, dp_has_missing = True,
             dp_target_column = Some ''churn'', dp_task_type = ''classification'',
             dp_num_classes = Some 2, dp_imbalance_ratio = Some 4, dp_is_imbalanced = Some True,
             dp_size_category = ''medium''\<rparr>
    in mset (rev (heuristics p ''xgboost'')) = mset (heuristics p ''xgboost'')
       \<and> run_heuristics (rev (heuristics p ''xgboost'')) 50 = score_model p ''xgboost''
       \<and> score_model p ''xgboost'' = 95
       \<and> map (\<lambda>r. (rec_id r, rec_rank r, rec_score r)) (get_recommendations p 5)
           = [(''catboost'', 1, 105), (''xgboost'', 2, 95), (''lightgbm'', 3, 80),
              (''random_forest'', 4, 50), (''gradient_boosting'', 5, 50)])"
proof -
  let ?p = "\<lparr>dp_rows = 5000, dp_columns = 9, dp_numeric_columns = 4, dp_categorical_columns = 4,
             dp_datetime_columns = 1, dp_missing_percentage = Some 1.5, dp_has_missing = True,
             dp_target_column = Some ''churn'', dp_task_type = ''classification'',
             dp_num_classes = Some 2, dp_imbalance_ratio = Some 4, dp_is_imbalanced = Some True,
             dp_size_category = ''medium''\<rparr>"
  have m: "mset (rev (heuristics ?p ''xgboost'')) = mset (heuristics ?p ''xgboost'')"
    by simp
  have r: "run_heuristics (rev (heuristics ?p ''xgboost'')) 50 = score_model ?p ''xgboost''"
    using recommendation_scores_and_ranking [of ?p "''xgboost''" 5] m by blast
  have s: "score_model ?p ''xgboost'' = 95"
    by (simp add: score_model_def boosting_def)
  have g: "map (\<lambda>r. (rec_id r, rec_rank r, rec_score r)) (get_recommendations ?p 5)
           = [(''catboost'', 1, 105), (''xgboost'', 2, 95), (''lightgbm'', 3, 80),
              (''random_forest'', 4, 50), (''gradient_boosting'', 5, 50)]"
    by (simp add: get_recommendations_def sorted_models_def available_models_def
        score_model_def boosting_def py_take_def)
  show ?thesis unfolding Let_def using m r s g by blast
qed

section \<open>Task type\<close>


lemma get_column_absent:
  "t \<notin> set (column_names df) \<Longrightarrow> get_column df t = Inl KeyError"
  by (auto simp: get_column_def column_names_def find_None_iff split: option.splits)






section \<open>Unknown target column\<close>

text \<open>
  Claim C2, as amended. For a target column name that is not a column of the dataset the
  recommender raises nothing: the profile has task type "unknown" and no target column
  (no other column is taken in its place), and the result is an ordinary ranked list
  over the three fallback models random_forest, xgboost and lightgbm.
\<close>

theorem unknown_target_recommendations:
  assumes "t \<notin> set (column_names df)"
  shows "\<exists>p. analyze_data df (Some t) = Inr p
            \<and> dp_task_type p = ''unknown''
            \<and> dp_target_column p = None
            \<and> recommender_task_type df (Some t) = Inr ''unknown''
            \<and> recommend df (Some t) top_n = Inr (get_recommendations p top_n)
            \<and> map (\<lambda>r. (rec_id r, rec_score r)) (get_recommendations p top_n)
                = py_take top_n
                    (sort_key (\<lambda>x. - snd x)
                       (map (\<lambda>model. (model, score_model p model))
                          [''random_forest'', ''xgboost'', ''lightgbm'']))"
  using assms
  by (simp add: analyze_data_def recommend_def recommender_task_type_def Let_def
      recommendations_pairs sorted_models_def available_models_def)

text \<open>
  Claim C2 as stated fails: asking for recommendations against the absent column "b"
  returns a ranked list of three models, not an error.
\<close>

theorem unknown_target_counterexample:
  "(let df = \<lparr>n_rows = 2,
              df_columns = [\<lparr>col_name = ''a'', col_dtype = Int64, col_cells = [Num 1, Num 2]\<rparr>]\<rparr>
    in ''b'' \<notin> set (column_names df)
       \<and> recommend df (Some ''b'') 3
           = Inr [\<lparr>rec_id = ''xgboost'', rec_rank = 1, rec_score = 60\<rparr>,
                  \<lparr>rec_id = ''lightgbm'', rec_rank = 2, rec_score = 60\<rparr>,
                  \<lparr>rec_id = ''random_forest'', rec_rank = 3, rec_score = 50\<rparr>])"
  by (simp add: Let_def column_names_def recommend_def analyze_data_def get_recommendations_def
      sorted_models_def available_models_def score_model_def boosting_def py_take_def
      size_category_def missing_pct_def df_size_def isna_sum_def numeric_cols_def
      categorical_cols_def datetime_cols_def is_number_def)

theorem unknown_target_recommendations_witness:
  "(let df = \<lparr>n_rows = 2,
              df_columns = [\<lparr>col_name = ''a'', col_dtype = Int64, col_cells = [Num 1, Num 2]\<rparr>]\<rparr>
    in ''b'' \<notin> set (column_names df)
       \<and> recommender_task_type df (Some ''b'') = Inr ''unknown''
       \<and> (\<exists>p. recommend df (Some ''b'') 3 = Inr (get_recommendations p 3)))"
proof -
  let ?df = "\<lparr>n_rows = 2,
              df_columns = [\<lparr>col_name = ''a'', col_dtype = Int64, col_cells = [Num 1, Num 2]\<rparr>]\<rparr>"
  have h: "''b'' \<notin> set (column_names ?df)" by (simp add: column_names_def)
  from unknown_target_recommendations [OF h, of 3] h show ?thesis
    unfolding Let_def by blast
qed


section \<open>Duplicate rows and the totality of the ratio measurers\<close>







lemma map_res_total:
  "(\<And>x. x \<in> set xs \<Longrightarrow> \<exists>y. f x = Inr y) \<Longrightarrow> \<exists>ys. map_res f xs = Inr ys"
proof (induction xs)
  case Nil
  then show ?case by simp
next
  case (Cons x xs)
  obtain y where y: "f x = Inr y" using Cons.prems by auto
  obtain ys where ys: "map_res f xs = Inr ys" using Cons by auto
  show ?case by (simp add: y ys)
qed

lemma completeness_entry_total: "\<exists>e. completeness_entry df c = Inr e"
  by (simp add: completeness_entry_def py_div_def Let_def)

lemma uniqueness_entry_total: "\<exists>e. uniqueness_entry df c = Inr e"
  by (simp add: uniqueness_entry_def py_div_def Let_def)

lemma measure_completeness_score:
  "\<exists>r. measure_completeness df = Inr r
       \<and> comp_score r
         = py_round 2
             ((if df_size df > 0
               then real (sum_list (map (\<lambda>c. notna_sum (col_cells c)) (df_columns df)))
                    / real (df_size df)
               else 0) * 100)"
proof -
  obtain es where es: "map_res (completeness_entry df) (df_columns df) = Inr es"
    using map_res_total [of "df_columns df" "completeness_entry df"] completeness_entry_total
    by blast
  show ?thesis
    by (simp add: measure_completeness_def py_div_def es Let_def)
qed

lemma measure_uniqueness_score:
  "\<exists>r. measure_uniqueness df = Inr r
       \<and> uniq_duplicate_rows r = count_true (duplicated df)
       \<and> uniq_score r
         = py_round 2
             ((if n_rows df > 0
               then (real (n_rows df) - real (count_true (duplicated df))) / real (n_rows df)
               else 0) * 100)"
proof -
  obtain es where es: "map_res (uniqueness_entry df) (df_columns df) = Inr es"
    using map_res_total [of "df_columns df" "uniqueness_entry df"] uniqueness_entry_total
    by blast
  show ?thesis
    by (simp add: measure_uniqueness_def py_div_def es Let_def)
qed

section \<open>Uniqueness score and empty input\<close>




text \<open>
  Claim C9, as amended. On every dataset the Completeness and Uniqueness measurers return
  a result: no division by zero is reached. The Completeness score is 0 for a dataset with
  zero rows or zero columns, and the Uniqueness score is 0 for a dataset with zero rows.
\<close>

theorem empty_input_scores:
  "(\<exists>r. measure_completeness df = Inr r
        \<and> (n_rows df = 0 \<or> df_columns df = [] \<longrightarrow> comp_score r = 0))
   \<and> (\<exists>r. measure_uniqueness df = Inr r \<and> (n_rows df = 0 \<longrightarrow> uniq_score r = 0))"
proof -
  obtain c where c: "measure_completeness df = Inr c"
    "comp_score c
         = py_round 2
             ((if df_size df > 0
               then real (sum_list (map (\<lambda>c. notna_sum (col_cells c)) (df_columns df)))
                    / real (df_size df)
               else 0) * 100)"
    using measure_completeness_score [of df] by blast
  obtain u where u: "measure_uniqueness df = Inr u"
    "uniq_score u
         = py_round 2
             ((if n_rows df > 0
               then (real (n_rows df) - real (count_true (duplicated df))) / real (n_rows df)
               else 0) * 100)"
    using measure_uniqueness_score [of df] by blast
  have "n_rows df = 0 \<or> df_columns df = [] \<longrightarrow> comp_score c = 0"
    unfolding c(2) by (auto simp: df_size_def py_round_zero)
  moreover have "n_rows df = 0 \<longrightarrow> uniq_score u = 0"
    unfolding u(2) by (simp add: py_round_zero)
  ultimately show ?thesis using c(1) u(1) by simp
qed

text \<open>
  Claim C9 as stated fails: for a dataset with zero columns and one row the Uniqueness
  score is 100, not 0; the guard of the ratio is on the number of rows only.
\<close>

theorem empty_input_counterexample:
  "measure_uniqueness \<lparr>n_rows = 1, df_columns = []\<rparr>
   = Inr \<lparr>uniq_score = 100, uniq_total_rows = 1, uniq_unique_rows = 1,
          uniq_duplicate_rows = 0, uniq_duplicate_percentage = 0,
          uniq_column_cardinality = [], uniq_potential_key_columns = [],
          uniq_threshold = 95, uniq_status = ''pass''\<rparr>"
  by (simp add: measure_uniqueness_def duplicated_def df_empty_def count_true_def py_div_def
      py_round_def round_half_even_def)

theorem empty_input_scores_witness:
  "(let df = \<lparr>n_rows = 0,
              df_columns = [\<lparr>col_name = ''id'', col_dtype = Int64, col_cells = []\<rparr>]\<rparr>
    in n_rows df = 0
       \<and> map_sum id comp_score (measure_completeness df) = Inr 0
       \<and> map_sum id uniq_score (measure_uniqueness df) = Inr 0)"
  using empty_input_scores
    [of "\<lparr>n_rows = 0,
          df_columns = [\<lparr>col_name = ''id'', col_dtype = Int64, col_cells = []\<rparr>]\<rparr>"]
  by (auto simp: Let_def)

section \<open>Score ranges\<close>





















end
